theory Spec2Isabelle
  imports Complex_Main "HOL-Library.Word" "HOL-Library.Sublist"
begin

section \<open>Values of the ledger service\<close>

text \<open>
  The transaction manager of the ledger service
  (\<^verbatim>\<open>internal/transactionmanager/transaction.go\<close>) validates a candidate
  transaction, hands it to the storage client and maps the storage client's errors.
  A \<^verbatim>\<open>uuid.UUID\<close> is an array of 16 bytes. A \<^verbatim>\<open>time.Time\<close> is read as the
  instant it denotes, in nanoseconds of Unix time; its zero value is the first instant of
  the year 1.
\<close>

type_synonym uuid = "128 word"
type_synonym Time = int

definition Time_zero :: Time where
  "Time_zero = - 62135596800 * 1000000000"

text \<open>
  \<^verbatim>\<open>decimal.Decimal\<close> (shopspring) is a coefficient and a power of ten:
  the number \<open>value * 10 ^ exp\<close>. The zero value of the struct has coefficient 0.
  \<^verbatim>\<open>IsPositive\<close> is \<^verbatim>\<open>d.Sign() == 1\<close>, and \<^verbatim>\<open>Sign\<close> is the sign of
  the coefficient.
\<close>

record Decimal =
  d_value :: int
  d_exp :: int

definition dec_val :: "Decimal \<Rightarrow> rat" where
  "dec_val d = of_int (d_value d) * power_int 10 (d_exp d)"

definition Sign :: "Decimal \<Rightarrow> int" where
  "Sign d = (if d_value d < 0 then - 1 else if d_value d = 0 then 0 else 1)"

definition IsPositive :: "Decimal \<Rightarrow> bool" where
  "IsPositive d = (Sign d = 1)"

text \<open>\<^verbatim>\<open>decimal.NewFromFloat(0)\<close>: the library returns \<^verbatim>\<open>New(0, 0)\<close> for the float 0.\<close>

definition NewFromFloat_0 :: Decimal where
  "NewFromFloat_0 = \<lparr>d_value = 0, d_exp = 0\<rparr>"

text \<open>
  \<^verbatim>\<open>strings.Contains(s, substr)\<close>: whether \<open>substr\<close> occurs in \<open>s\<close>, byte by
  byte; the empty string occurs in every string.
\<close>

fun HasPrefix :: "string \<Rightarrow> string \<Rightarrow> bool" where
  "HasPrefix s [] = True"
| "HasPrefix [] (p # ps) = False"
| "HasPrefix (c # cs) (p # ps) = (c = p \<and> HasPrefix cs ps)"

fun Contains :: "string \<Rightarrow> string \<Rightarrow> bool" where
  "Contains [] substr = (substr = [])"
| "Contains (c # cs) substr = (HasPrefix (c # cs) substr \<or> Contains cs substr)"

subsection \<open>Transactions and users\<close>

text \<open>
  \<^verbatim>\<open>transactionmanager.Transaction\<close> and \<^verbatim>\<open>storage.Transaction\<close> are two
  struct types with the same five fields; the manager copies one into the other field
  by field. The fields of \<^verbatim>\<open>storage.Transaction\<close> carry the prefix \<open>st\<close> here,
  those of \<^verbatim>\<open>storage.User\<close> the prefix \<open>User\<close>.
\<close>

record Transaction =
  ID :: uuid
  UserID :: uuid
  Amount :: Decimal
  CreatedAt :: Time
  IdempotencyKey :: uuid

record storage_Transaction =
  stID :: uuid
  stUserID :: uuid
  stAmount :: Decimal
  stCreatedAt :: Time
  stIdempotencyKey :: uuid

record storage_User =
  User_ID :: uuid
  User_Balance :: Decimal

text \<open>The zero values \<^verbatim>\<open>Transaction{}\<close> and \<^verbatim>\<open>[]Transaction{}\<close> of Go.\<close>

definition Decimal_zero :: Decimal where
  "Decimal_zero = \<lparr>d_value = 0, d_exp = 0\<rparr>"

definition Transaction_zero :: Transaction where
  "Transaction_zero =
     \<lparr>ID = 0, UserID = 0, Amount = Decimal_zero, CreatedAt = Time_zero,
      IdempotencyKey = 0\<rparr>"

subsection \<open>Errors\<close>

text \<open>
  The manager declares two sentinel errors with \<^verbatim>\<open>errors.New\<close>. Every other error
  it returns is one the storage client gave it. The storage package cannot name the
  manager's sentinels (the manager imports the storage package), so an error of the
  storage client is a value of its own type: the sentinels of the storage package, or an
  error of the database driver, which is known by its message only.
\<close>

datatype storage_error =
  ErrUserNotFound
| ErrUserAlreadyExists
| DriverError string

datatype error =
  ErrInvalidTransaction
| ErrTransactionAlreadyExist
| Storage storage_error

text \<open>
  \<^verbatim>\<open>err.Error()\<close>. The messages of the two manager sentinels are in the source.
  Modelled from the spec: the messages of the storage sentinels, whose declarations
  (\<^verbatim>\<open>internal/storage\<close>) are not among the source files; the spec calls them
  \<open>UserNotFound\<close> and "a distinct error if a user with that identity already exists".
\<close>

fun storage_Error :: "storage_error \<Rightarrow> string" where
  "storage_Error ErrUserNotFound = ''user not found''"
| "storage_Error ErrUserAlreadyExists = ''user already exists''"
| "storage_Error (DriverError m) = m"

fun Error :: "error \<Rightarrow> string" where
  "Error ErrInvalidTransaction = ''invalid transaction''"
| "Error ErrTransactionAlreadyExist = ''transaction already exist''"
| "Error (Storage e) = storage_Error e"

definition duplicate_key_marker :: string where
  "duplicate_key_marker = ''duplicate key value violates unique constraint''"

section \<open>The transaction manager\<close>

text \<open>
  The storage client is handed to the manager at construction. Its repositories are
  stateful (a database), so each of their methods takes the state of the store and
  returns the state it leaves; a Go method returning \<^verbatim>\<open>(v, err)\<close> returns the pair
  \<open>(v, err)\<close> with \<open>None\<close> for \<^verbatim>\<open>nil\<close>. The context is handed on untouched, and
  so are \<^verbatim>\<open>page\<close> and \<^verbatim>\<open>pageSize\<close>.
\<close>

record ('ctx, 's) StorageClient =
  UserRepository_FindByID ::
    "'ctx \<Rightarrow> uuid \<Rightarrow> 's \<Rightarrow> (storage_User \<times> storage_error option) \<times> 's"
  TransactionRepository_AddTransaction ::
    "'ctx \<Rightarrow> storage_Transaction \<Rightarrow> 's \<Rightarrow> (storage_Transaction \<times> storage_error option) \<times> 's"
  TransactionRepository_GetUserTransactionHistory ::
    "'ctx \<Rightarrow> uuid \<Rightarrow> int \<Rightarrow> int \<Rightarrow> 's \<Rightarrow> (storage_Transaction list \<times> storage_error option) \<times> 's"

record ('ctx, 's) TransactionManagerClient =
  storageClient :: "('ctx, 's) StorageClient"

definition NewTransactionManagerClient ::
    "('ctx, 's) StorageClient \<Rightarrow> ('ctx, 's) TransactionManagerClient" where
  "NewTransactionManagerClient storage = \<lparr>storageClient = storage\<rparr>"

definition ValidateTransaction ::
    "('ctx, 's) TransactionManagerClient \<Rightarrow> 'ctx \<Rightarrow> Transaction \<Rightarrow> bool" where
  "ValidateTransaction tm ctx transaction = IsPositive (Amount transaction)"

definition to_storage :: "Transaction \<Rightarrow> storage_Transaction" where
  "to_storage transactionEntity =
     \<lparr>stID = ID transactionEntity,
      stUserID = UserID transactionEntity,
      stAmount = Amount transactionEntity,
      stCreatedAt = CreatedAt transactionEntity,
      stIdempotencyKey = IdempotencyKey transactionEntity\<rparr>"

definition AddTransaction ::
    "('ctx, 's) TransactionManagerClient \<Rightarrow> 'ctx \<Rightarrow> Transaction \<Rightarrow> 's
       \<Rightarrow> (Transaction \<times> error option) \<times> 's" where
  "AddTransaction tm ctx transactionEntity s =
     (if \<not> ValidateTransaction tm ctx transactionEntity
      then ((Transaction_zero, Some ErrInvalidTransaction), s)
      else
        (case TransactionRepository_AddTransaction (storageClient tm) ctx
                (to_storage transactionEntity) s of
           ((_, err), s') \<Rightarrow>
             (case err of
                Some e \<Rightarrow>
                  if Contains (storage_Error e) duplicate_key_marker
                  then ((Transaction_zero, Some ErrTransactionAlreadyExist), s')
                  else ((Transaction_zero, Some (Storage e)), s')
              | None \<Rightarrow> ((transactionEntity, None), s'))))"

definition GetUserBalance ::
    "('ctx, 's) TransactionManagerClient \<Rightarrow> 'ctx \<Rightarrow> uuid \<Rightarrow> 's
       \<Rightarrow> (Decimal \<times> error option) \<times> 's" where
  "GetUserBalance tm ctx userID s =
     (case UserRepository_FindByID (storageClient tm) ctx userID s of
        ((user, err), s') \<Rightarrow>
          (case err of
             Some e \<Rightarrow> ((NewFromFloat_0, Some (Storage e)), s')
           | None \<Rightarrow> ((User_Balance user, None), s')))"

definition from_storage :: "storage_Transaction \<Rightarrow> Transaction" where
  "from_storage transaction =
     \<lparr>ID = stID transaction,
      UserID = stUserID transaction,
      Amount = stAmount transaction,
      CreatedAt = stCreatedAt transaction,
      IdempotencyKey = stIdempotencyKey transaction\<rparr>"

text \<open>The loop of \<^verbatim>\<open>GetUserTransactionHistory\<close>: one \<^verbatim>\<open>append\<close> per row.\<close>

fun append_rows :: "Transaction list \<Rightarrow> storage_Transaction list \<Rightarrow> Transaction list" where
  "append_rows transactions [] = transactions"
| "append_rows transactions (transaction # rest) =
     append_rows (transactions @ [from_storage transaction]) rest"

definition GetUserTransactionHistory ::
    "('ctx, 's) TransactionManagerClient \<Rightarrow> 'ctx \<Rightarrow> uuid \<Rightarrow> int \<Rightarrow> int \<Rightarrow> 's
       \<Rightarrow> (Transaction list \<times> error option) \<times> 's" where
  "GetUserTransactionHistory tm ctx userID page pageSize s =
     (case UserRepository_FindByID (storageClient tm) ctx userID s of
        ((_, err), s1) \<Rightarrow>
          (case err of
             Some e \<Rightarrow> (([], Some (Storage e)), s1)
           | None \<Rightarrow>
               (case TransactionRepository_GetUserTransactionHistory (storageClient tm) ctx
                       userID page pageSize s1 of
                  ((transactionResult, err2), s2) \<Rightarrow>
                    (case err2 of
                       Some e2 \<Rightarrow> (([], Some (Storage e2)), s2)
                     | None \<Rightarrow> ((append_rows [] transactionResult, None), s2)))))"

section \<open>The store\<close>

text \<open>
  Modelled from the spec: the persistence repository (\<^verbatim>\<open>internal/storage\<close>), which is
  not among the source files. What is known of it: the schema (\<^verbatim>\<open>users\<close> with primary
  key \<open>id\<close>; \<^verbatim>\<open>transactions\<close> with primary key \<open>id\<close> and a foreign key from
  \<open>user_id\<close> to \<^verbatim>\<open>users\<close>; no uniqueness on \<open>idempotency_key\<close>), the calls the
  manager and the tests make, and the spec's contract:
  \<^item> \<open>Add(user)\<close> "fails with a distinct error if a user with that identity already
    exists" (4.2);
  \<^item> \<open>FindByID(id)\<close> "fails with NotFound if absent" (4.2); the balance of the user it
    gives "always equals the sum of that user's persisted transaction amounts at the
    instant of the read", whether the repository stores it or aggregates it (4.1);
  \<^item> \<open>AddTransaction\<close> is an "atomic insert"; "a transaction referencing an unknown user
    is rejected" (3) with \<open>UserNotFound\<close> (7, 8), and one whose identity exists already
    fails with a conflict "textually identifiable as a uniqueness violation" (4.2);
  \<^item> \<open>GetUserTransactionHistory\<close> is a "paginated read filtered by user", \<open>page\<close>
    1-indexed and \<open>pageSize\<close> bounding the length (4.1), here in insertion order.
  The balance is a derived quantity (3), so the state of the store is the identities of
  its users and the rows of its transactions. Amounts are exact decimals, as the spec's
  data model and the Go structs have them; the column types of the schema are outside
  the model. The store has no infrastructure failures of its own; those are covered by
  the theorems that hold for every storage client.
\<close>

record DB =
  users :: "uuid list"
  transactions :: "storage_Transaction list"

definition DB_empty :: DB where
  "DB_empty = \<lparr>users = [], transactions = []\<rparr>"

definition User_zero :: storage_User where
  "User_zero = \<lparr>User_ID = 0, User_Balance = Decimal_zero\<rparr>"

definition storage_Transaction_zero :: storage_Transaction where
  "storage_Transaction_zero =
     \<lparr>stID = 0, stUserID = 0, stAmount = Decimal_zero, stCreatedAt = Time_zero,
      stIdempotencyKey = 0\<rparr>"

text \<open>
  Exact addition of decimals, as \<^verbatim>\<open>Decimal.Add\<close> does it: both operands are rescaled
  to the smaller exponent, then the coefficients are added. The sum of a list of decimals
  adds them one by one to the decimal 0.
\<close>

definition Decimal_Add :: "Decimal \<Rightarrow> Decimal \<Rightarrow> Decimal" where
  "Decimal_Add d d2 =
     (let e = min (d_exp d) (d_exp d2)
      in \<lparr>d_value = d_value d * 10 ^ nat (d_exp d - e) + d_value d2 * 10 ^ nat (d_exp d2 - e),
          d_exp = e\<rparr>)"

definition Decimal_Sum :: "Decimal list \<Rightarrow> Decimal" where
  "Decimal_Sum ds = foldl Decimal_Add Decimal_zero ds"

text \<open>
  Modelled from the spec: the conflict of the store, "textually identifiable as a
  uniqueness violation"; this is the message of the database for a second row with the
  same primary key.
\<close>

definition unique_violation :: string where
  "unique_violation =
     ''pq: duplicate key value violates unique constraint '' @ [CHR 0x22] @
     ''transactions_pkey'' @ [CHR 0x22]"

text \<open>The errors of the store that are its identity conflict: that one.\<close>

definition Store_conflict :: "storage_error \<Rightarrow> bool" where
  "Store_conflict e = (e = DriverError unique_violation)"

definition user_exists :: "uuid \<Rightarrow> DB \<Rightarrow> bool" where
  "user_exists userID db = (userID \<in> set (users db))"

definition transaction_exists :: "uuid \<Rightarrow> DB \<Rightarrow> bool" where
  "transaction_exists transactionID db = (transactionID \<in> set (map stID (transactions db)))"

definition user_transactions :: "uuid \<Rightarrow> DB \<Rightarrow> storage_Transaction list" where
  "user_transactions userID db = filter (\<lambda>t. stUserID t = userID) (transactions db)"

text \<open>
  Modelled from the spec: \<^verbatim>\<open>UserRepository.Add\<close>, which "fails with a distinct error if
  a user with that identity already exists"; otherwise the user exists from then on.
\<close>

definition Store_Add :: "'ctx \<Rightarrow> storage_User \<Rightarrow> DB \<Rightarrow> storage_error option \<times> DB" where
  "Store_Add ctx user db =
     (if user_exists (User_ID user) db then (Some ErrUserAlreadyExists, db)
      else (None, db\<lparr>users := users db @ [User_ID user]\<rparr>))"

text \<open>
  Modelled from the spec: the balance the repository answers for a user, which "always
  equals the sum of that user's persisted transaction amounts at the instant of the
  read".
\<close>

definition Store_Balance :: "uuid \<Rightarrow> DB \<Rightarrow> Decimal" where
  "Store_Balance userID db = Decimal_Sum (map stAmount (user_transactions userID db))"

text \<open>
  Modelled from the spec: \<^verbatim>\<open>UserRepository.FindByID\<close>, which "fails with NotFound if
  absent" and gives the user with its balance otherwise.
\<close>

definition Store_FindByID ::
    "'ctx \<Rightarrow> uuid \<Rightarrow> DB \<Rightarrow> (storage_User \<times> storage_error option) \<times> DB" where
  "Store_FindByID ctx userID db =
     (if user_exists userID db
      then ((\<lparr>User_ID = userID, User_Balance = Store_Balance userID db\<rparr>, None), db)
      else ((User_zero, Some ErrUserNotFound), db))"

text \<open>
  Modelled from the spec: \<^verbatim>\<open>TransactionRepository.AddTransaction\<close>, the atomic insert.
  A transaction referencing an unknown user is rejected, then the primary key decides;
  otherwise the row is inserted.
\<close>

definition Store_AddTransaction ::
    "'ctx \<Rightarrow> storage_Transaction \<Rightarrow> DB
       \<Rightarrow> (storage_Transaction \<times> storage_error option) \<times> DB" where
  "Store_AddTransaction ctx transaction db =
     (if \<not> user_exists (stUserID transaction) db
      then ((storage_Transaction_zero, Some ErrUserNotFound), db)
      else if transaction_exists (stID transaction) db
      then ((storage_Transaction_zero, Some (DriverError unique_violation)), db)
      else ((transaction, None), db\<lparr>transactions := transactions db @ [transaction]\<rparr>))"

text \<open>
  Modelled from the spec: \<^verbatim>\<open>TransactionRepository.GetUserTransactionHistory\<close>, the
  paginated read of one user's transactions. The spec fixes \<open>page \<ge> 1\<close> and
  \<open>pageSize \<ge> 0\<close> only; smaller values read as an offset or a length of 0 here.
\<close>

definition Store_GetUserTransactionHistory ::
    "'ctx \<Rightarrow> uuid \<Rightarrow> int \<Rightarrow> int \<Rightarrow> DB
       \<Rightarrow> (storage_Transaction list \<times> storage_error option) \<times> DB" where
  "Store_GetUserTransactionHistory ctx userID page pageSize db =
     ((take (nat pageSize) (drop (nat ((page - 1) * pageSize)) (user_transactions userID db)),
       None), db)"

definition Store :: "('ctx, DB) StorageClient" where
  "Store =
     \<lparr>UserRepository_FindByID = Store_FindByID,
      TransactionRepository_AddTransaction = Store_AddTransaction,
      TransactionRepository_GetUserTransactionHistory = Store_GetUserTransactionHistory\<rparr>"

text \<open>The manager of the tests, built on the store; the store ignores the context.\<close>

definition Manager :: "(unit, DB) TransactionManagerClient" where
  "Manager = NewTransactionManagerClient Store"

text \<open>
  A storage client whose every call fails with the same error and leaves the state as
  it is: the test double for infrastructure failures.
\<close>

definition failing_client :: "storage_error \<Rightarrow> ('ctx, 's) StorageClient" where
  "failing_client e =
     \<lparr>UserRepository_FindByID = (\<lambda>ctx userID s. ((User_zero, Some e), s)),
      TransactionRepository_AddTransaction =
        (\<lambda>ctx transaction s. ((storage_Transaction_zero, Some e), s)),
      TransactionRepository_GetUserTransactionHistory =
        (\<lambda>ctx userID page pageSize s. (([], Some e), s))\<rparr>"

definition failing_manager :: "storage_error \<Rightarrow> ('ctx, unit) TransactionManagerClient" where
  "failing_manager e = NewTransactionManagerClient (failing_client e)"

subsection \<open>Runs\<close>

text \<open>
  The insert of the store is atomic: it is one step of the model. A run of several
  submissions, concurrent or not, is therefore a sequence of such steps in the order in
  which the store serialises them; \<open>submit_all\<close> runs the submissions in the order of
  the list and collects the error of each, as the tests count successes and failures.
\<close>

fun submit_all ::
    "('ctx, 's) TransactionManagerClient \<Rightarrow> 'ctx \<Rightarrow> Transaction list \<Rightarrow> 's
       \<Rightarrow> error option list \<times> 's" where
  "submit_all tm ctx [] s = ([], s)"
| "submit_all tm ctx (t # ts) s =
     (case AddTransaction tm ctx t s of
        ((_, err), s') \<Rightarrow>
          (case submit_all tm ctx ts s' of (errs, s'') \<Rightarrow> (err # errs, s'')))"

text \<open>
  The two writes the service makes: a user is created through the user repository (as
  the tests do), a transaction is submitted through the manager.
\<close>

datatype request =
  CreateUser storage_User
| Submit Transaction

fun serve :: "request \<Rightarrow> DB \<Rightarrow> DB" where
  "serve (CreateUser user) db = snd (Store_Add () user db)"
| "serve (Submit t) db = snd (AddTransaction Manager () t db)"

fun serve_all :: "request list \<Rightarrow> DB \<Rightarrow> DB" where
  "serve_all [] db = db"
| "serve_all (r # rs) db = serve_all rs (serve r db)"


subsection \<open>Test data\<close>

text \<open>
  The data of the repository's tests: a user created with balance 0, a transaction of
  amount 100 dated 2020-01-01 UTC for that user, the same transaction with amount 0
  (\<^verbatim>\<open>TestAddTransaction_NotValidAmount\<close>), a transaction of the same amount that
  differs in every other field, and the store after the user's creation. An error of the
  database driver: a lost connection.
\<close>

definition test_user :: storage_User where
  "test_user = \<lparr>User_ID = 1, User_Balance = NewFromFloat_0\<rparr>"

definition test_transaction :: Transaction where
  "test_transaction =
     \<lparr>ID = 10, UserID = 1, Amount = \<lparr>d_value = 100, d_exp = 0\<rparr>,
      CreatedAt = 1577836800000000000, IdempotencyKey = 20\<rparr>"

definition test_transaction_zero_amount :: Transaction where
  "test_transaction_zero_amount = test_transaction\<lparr>Amount := NewFromFloat_0\<rparr>"

definition other_transaction :: Transaction where
  "other_transaction =
     \<lparr>ID = 11, UserID = 2, Amount = \<lparr>d_value = 100, d_exp = 0\<rparr>,
      CreatedAt = 0, IdempotencyKey = 21\<rparr>"

text \<open>
  A second transaction for the same user with the same idempotency key, another id and
  another amount, as in \<^verbatim>\<open>TestAddTransaction_MultipleRequestWithDifferentAmount\<close>.
\<close>

definition same_key_transaction :: Transaction where
  "same_key_transaction =
     test_transaction\<lparr>ID := 12, Amount := \<lparr>d_value = 50, d_exp = 0\<rparr>\<rparr>"

definition test_db :: DB where
  "test_db = snd (Store_Add () test_user DB_empty)"

text \<open>The store after the test transaction was added to it.\<close>

definition test_db_1 :: DB where
  "test_db_1 = \<lparr>users = [1], transactions = [to_storage test_transaction]\<rparr>"

definition bad_connection :: storage_error where
  "bad_connection = DriverError ''driver: bad connection''"

section \<open>Validation\<close>

lemma IsPositive_iff: "IsPositive d \<longleftrightarrow> 0 < d_value d"
  by (simp add: IsPositive_def Sign_def)

lemma IsPositive_dec_val: "IsPositive d \<longleftrightarrow> 0 < dec_val d"
proof -
  have pos: "(0::rat) < power_int 10 (d_exp d)"
    by (rule zero_less_power_int) simp
  show ?thesis
  proof
    assume "IsPositive d"
    then have "(0::rat) < of_int (d_value d)"
      by (simp add: IsPositive_iff)
    then show "0 < dec_val d"
      unfolding dec_val_def using pos by (rule mult_pos_pos)
  next
    assume "0 < dec_val d"
    then have "(0::rat) < of_int (d_value d) * power_int 10 (d_exp d)"
      by (simp only: dec_val_def)
    then have "(0::rat) < of_int (d_value d)"
      using pos by (rule zero_less_mult_pos2)
    then show "IsPositive d"
      by (simp add: IsPositive_iff)
  qed
qed

text \<open>\<open>Contains\<close> is the occurrence of a substring.\<close>

lemma HasPrefix_prefix: "HasPrefix s p \<longleftrightarrow> prefix p s"
  by (induction s p rule: HasPrefix.induct) auto

lemma Contains_sublist: "Contains s sub \<longleftrightarrow> sublist sub s"
  by (induction s) (simp_all add: sublist_Cons_right HasPrefix_prefix)

lemma Contains_iff: "Contains s sub \<longleftrightarrow> (\<exists>p q. s = p @ sub @ q)"
  by (simp add: Contains_sublist sublist_def)

lemma Contains_user_not_found:
  "\<not> Contains (storage_Error ErrUserNotFound) duplicate_key_marker"
  by (simp add: duplicate_key_marker_def)

lemma Contains_unique_violation: "Contains unique_violation duplicate_key_marker"
  by (simp add: duplicate_key_marker_def unique_violation_def)

lemma Contains_bad_connection:
  "\<not> Contains (storage_Error bad_connection) duplicate_key_marker"
  by (simp add: bad_connection_def duplicate_key_marker_def)

lemma test_db_eq: "test_db = \<lparr>users = [1], transactions = []\<rparr>"
  by (simp add: test_db_def Store_Add_def DB_empty_def user_exists_def test_user_def)

lemma test_transaction_valid: "IsPositive (Amount test_transaction)"
  by (simp add: test_transaction_def IsPositive_iff)

text \<open>
  C10. The result of \<open>ValidateTransaction\<close> depends on the \<open>Amount\<close> field only: two
  transactions with equal amounts get the same answer, whatever the manager, the
  context and the other four fields are.
\<close>

theorem ValidateTransaction_depends_on_Amount_only:
  "Amount t1 = Amount t2 \<Longrightarrow> ValidateTransaction tm1 ctx1 t1 = ValidateTransaction tm2 ctx2 t2"
  by (simp add: ValidateTransaction_def)

theorem ValidateTransaction_depends_on_Amount_only_witness:
  "Amount test_transaction = Amount other_transaction \<and>
   ValidateTransaction Manager () test_transaction =
     ValidateTransaction (failing_manager bad_connection :: (bool, unit) TransactionManagerClient)
       True other_transaction"
  using ValidateTransaction_depends_on_Amount_only
    [of test_transaction other_transaction Manager "()"
        "failing_manager bad_connection :: (bool, unit) TransactionManagerClient" True]
  by (simp add: test_transaction_def other_transaction_def)

section \<open>AddTransaction, for every storage client\<close>

lemma AddTransaction_invalid:
  "\<not> IsPositive (Amount t) \<Longrightarrow>
     AddTransaction tm ctx t s = ((Transaction_zero, Some ErrInvalidTransaction), s)"
  by (simp add: AddTransaction_def ValidateTransaction_def)

lemma AddTransaction_valid:
  assumes "IsPositive (Amount t)"
    and "TransactionRepository_AddTransaction (storageClient tm) ctx (to_storage t) s =
           ((r, err), s')"
  shows "AddTransaction tm ctx t s =
     (case err of
        None \<Rightarrow> ((t, None), s')
      | Some e \<Rightarrow>
          if Contains (storage_Error e) duplicate_key_marker
          then ((Transaction_zero, Some ErrTransactionAlreadyExist), s')
          else ((Transaction_zero, Some (Storage e)), s'))"
  using assms by (simp add: AddTransaction_def ValidateTransaction_def split: option.splits)

lemma AddTransaction_failing_manager:
  "IsPositive (Amount t) \<Longrightarrow>
   AddTransaction (failing_manager e) ctx t s =
     (if Contains (storage_Error e) duplicate_key_marker
      then ((Transaction_zero, Some ErrTransactionAlreadyExist), s)
      else ((Transaction_zero, Some (Storage e)), s))"
  by (simp add: AddTransaction_def ValidateTransaction_def NewTransactionManagerClient_def
      failing_client_def failing_manager_def)

text \<open>
  C5. \<open>ValidateTransaction\<close> is the predicate "the amount is strictly positive" (it takes
  no state and returns none). \<open>AddTransaction\<close> returns \<open>ErrInvalidTransaction\<close> exactly
  when the amount is not strictly positive; then its whole result is fixed without any
  method of the storage client, and the state of the store is returned as it was.
\<close>

theorem AddTransaction_InvalidTransaction:
  "(ValidateTransaction tm ctx t \<longleftrightarrow> 0 < dec_val (Amount t)) \<and>
   (snd (fst (AddTransaction tm ctx t s)) = Some ErrInvalidTransaction \<longleftrightarrow>
      \<not> 0 < dec_val (Amount t)) \<and>
   (\<not> 0 < dec_val (Amount t) \<longrightarrow>
      AddTransaction tm ctx t s = ((Transaction_zero, Some ErrInvalidTransaction), s))"
proof -
  obtain r err s' where call:
    "TransactionRepository_AddTransaction (storageClient tm) ctx (to_storage t) s =
       ((r, err), s')"
    by (metis surj_pair)
  have v: "ValidateTransaction tm ctx t \<longleftrightarrow> 0 < dec_val (Amount t)"
    by (simp add: ValidateTransaction_def IsPositive_dec_val)
  have inv: "\<not> 0 < dec_val (Amount t) \<Longrightarrow>
      AddTransaction tm ctx t s = ((Transaction_zero, Some ErrInvalidTransaction), s)"
    by (simp add: AddTransaction_invalid IsPositive_dec_val)
  have val: "0 < dec_val (Amount t) \<Longrightarrow>
      snd (fst (AddTransaction tm ctx t s)) \<noteq> Some ErrInvalidTransaction"
    using AddTransaction_valid [OF _ call]
    by (simp add: IsPositive_dec_val split: option.splits)
  show ?thesis
    using v inv val by auto
qed

theorem AddTransaction_InvalidTransaction_witness:
  "\<not> 0 < dec_val (Amount test_transaction_zero_amount) \<and>
   \<not> ValidateTransaction Manager () test_transaction_zero_amount \<and>
   AddTransaction Manager () test_transaction_zero_amount test_db =
     ((Transaction_zero, Some ErrInvalidTransaction), test_db)"
  using AddTransaction_InvalidTransaction [of Manager "()" test_transaction_zero_amount test_db]
  by (simp add: test_transaction_zero_amount_def NewFromFloat_0_def dec_val_def)

text \<open>
  C8. When the transaction is valid and the insert of the storage client returns no
  error, \<open>AddTransaction\<close> returns the caller's transaction itself, every field as it
  came in, with a nil error.
\<close>

theorem AddTransaction_success_returns_input:
  "ValidateTransaction tm ctx t \<Longrightarrow>
   snd (fst (TransactionRepository_AddTransaction (storageClient tm) ctx (to_storage t) s)) =
     None \<Longrightarrow>
   fst (AddTransaction tm ctx t s) = (t, None)"
  by (auto simp add: AddTransaction_def split: prod.splits option.splits)

lemma Store_AddTransaction_test:
  "snd (fst (Store_AddTransaction () (to_storage test_transaction) test_db)) = None"
  by (simp add: Store_AddTransaction_def test_db_eq test_user_def test_transaction_def
      to_storage_def user_exists_def transaction_exists_def)

theorem AddTransaction_success_returns_input_witness:
  "ValidateTransaction Manager () test_transaction \<and>
   snd (fst (TransactionRepository_AddTransaction (storageClient Manager) ()
               (to_storage test_transaction) test_db)) = None \<and>
   fst (AddTransaction Manager () test_transaction test_db) = (test_transaction, None)"
proof -
  have v: "ValidateTransaction Manager () test_transaction"
    by (simp add: ValidateTransaction_def test_transaction_valid)
  have ok: "snd (fst (TransactionRepository_AddTransaction (storageClient Manager) ()
               (to_storage test_transaction) test_db)) = None"
    by (simp add: Manager_def NewTransactionManagerClient_def Store_def Store_AddTransaction_test)
  show ?thesis
    using v ok AddTransaction_success_returns_input [OF v ok] by simp
qed

text \<open>
  C9. Whenever \<open>AddTransaction\<close> returns an error (invalid amount, duplicate, or any error
  of the storage client), the transaction it returns is the zero value
  \<^verbatim>\<open>Transaction{}\<close>; a candidate that is not itself the zero value is never returned
  with an error.
\<close>

theorem AddTransaction_failure_returns_zero:
  "snd (fst (AddTransaction tm ctx t s)) \<noteq> None \<Longrightarrow>
   fst (fst (AddTransaction tm ctx t s)) = Transaction_zero \<and>
   (t \<noteq> Transaction_zero \<longrightarrow> fst (fst (AddTransaction tm ctx t s)) \<noteq> t)"
  by (auto simp add: AddTransaction_def split: prod.splits option.splits if_splits)

theorem AddTransaction_failure_returns_zero_witness:
  "snd (fst (AddTransaction (failing_manager bad_connection) () test_transaction ())) \<noteq> None \<and>
   fst (fst (AddTransaction (failing_manager bad_connection) () test_transaction ())) =
     Transaction_zero \<and>
   test_transaction \<noteq> Transaction_zero \<and>
   fst (fst (AddTransaction (failing_manager bad_connection) () test_transaction ())) \<noteq>
     test_transaction"
proof -
  have f: "snd (fst (AddTransaction (failing_manager bad_connection) () test_transaction ())) \<noteq>
      None"
    by (simp add: AddTransaction_failing_manager test_transaction_valid Contains_bad_connection)
  have nz: "test_transaction \<noteq> Transaction_zero"
    by (simp add: test_transaction_def Transaction_zero_def)
  show ?thesis
    using f nz AddTransaction_failure_returns_zero [OF f] by simp
qed

section \<open>The manager on the store\<close>

lemma Manager_simps:
  "UserRepository_FindByID (storageClient Manager) = Store_FindByID"
  "TransactionRepository_AddTransaction (storageClient Manager) = Store_AddTransaction"
  "TransactionRepository_GetUserTransactionHistory (storageClient Manager) =
     Store_GetUserTransactionHistory"
  by (simp_all add: Manager_def NewTransactionManagerClient_def Store_def)

text \<open>
  The errors of the store's insert. It fails with the uniqueness violation exactly when
  the user exists and a row with the transaction's identity is stored; its only other
  error is \<open>ErrUserNotFound\<close>. The message of the first contains the text the manager
  looks for, that of the second does not.
\<close>

lemma Store_insert_errors:
  "snd (fst (Store_AddTransaction ctx row db)) =
     (if \<not> user_exists (stUserID row) db then Some ErrUserNotFound
      else if transaction_exists (stID row) db then Some (DriverError unique_violation)
      else None)"
  by (simp add: Store_AddTransaction_def)

lemma Store_honours_duty:
  "snd (fst (Store_AddTransaction ctx row db)) = Some e \<Longrightarrow>
   Store_conflict e \<longleftrightarrow> Contains (storage_Error e) duplicate_key_marker"
  using Contains_unique_violation Contains_user_not_found
  by (auto simp add: Store_insert_errors Store_conflict_def split: if_splits)

lemma test_transaction_fields:
  "ID test_transaction = 10" "UserID test_transaction = 1"
  "Amount test_transaction = \<lparr>d_value = 100, d_exp = 0\<rparr>"
  "IdempotencyKey test_transaction = 20"
  by (simp_all add: test_transaction_def)

lemma same_key_transaction_fields:
  "ID same_key_transaction = 12" "UserID same_key_transaction = 1"
  "Amount same_key_transaction = \<lparr>d_value = 50, d_exp = 0\<rparr>"
  "IdempotencyKey same_key_transaction = 20"
  by (simp_all add: same_key_transaction_def test_transaction_def)

lemma to_storage_fields [simp]:
  "stID (to_storage t) = ID t" "stUserID (to_storage t) = UserID t"
  "stAmount (to_storage t) = Amount t" "stIdempotencyKey (to_storage t) = IdempotencyKey t"
  by (simp_all add: to_storage_def)

lemma append_rows_map: "append_rows acc rows = acc @ map from_storage rows"
  by (induction rows arbitrary: acc) simp_all

lemma Manager_GetUserTransactionHistory:
  "GetUserTransactionHistory Manager () userID page pageSize db =
     (if user_exists userID db
      then ((map from_storage
               (take (nat pageSize)
                  (drop (nat ((page - 1) * pageSize)) (user_transactions userID db))),
             None), db)
      else (([], Some (Storage ErrUserNotFound)), db))"
  by (simp add: GetUserTransactionHistory_def Manager_simps Store_FindByID_def
      Store_GetUserTransactionHistory_def append_rows_map)

lemma Manager_GetUserBalance:
  "GetUserBalance Manager () userID db =
     (if user_exists userID db then ((Store_Balance userID db, None), db)
      else ((NewFromFloat_0, Some (Storage ErrUserNotFound)), db))"
  by (simp add: GetUserBalance_def Manager_simps Store_FindByID_def)

lemma Manager_AddTransaction:
  "AddTransaction Manager () t db =
    (if \<not> IsPositive (Amount t) then ((Transaction_zero, Some ErrInvalidTransaction), db)
     else if \<not> user_exists (UserID t) db
     then ((Transaction_zero, Some (Storage ErrUserNotFound)), db)
     else if transaction_exists (ID t) db
     then ((Transaction_zero, Some ErrTransactionAlreadyExist), db)
     else ((t, None), db\<lparr>transactions := transactions db @ [to_storage t]\<rparr>))"
  by (simp add: AddTransaction_def ValidateTransaction_def Manager_simps Store_AddTransaction_def
      Contains_unique_violation Contains_user_not_found [simplified])



text \<open>
  C4. For a user identity that is not in the store, \<open>GetUserBalance\<close>,
  \<open>GetUserTransactionHistory\<close> and \<open>AddTransaction\<close> (of a transaction with a positive
  amount for that user) all fail with \<open>UserNotFound\<close>, and leave the store as it was. The
  first two get the error from the user lookup they start with; \<open>AddTransaction\<close> makes
  no lookup of its own and hands on the error of the store's insert.
\<close>

theorem unknown_user_UserNotFound:
  "\<not> user_exists userID db \<Longrightarrow>
   GetUserBalance Manager () userID db = ((NewFromFloat_0, Some (Storage ErrUserNotFound)), db) \<and>
   GetUserTransactionHistory Manager () userID page pageSize db =
     (([], Some (Storage ErrUserNotFound)), db) \<and>
   (IsPositive (Amount t) \<and> UserID t = userID \<longrightarrow>
      AddTransaction Manager () t db = ((Transaction_zero, Some (Storage ErrUserNotFound)), db))"
  by (simp add: Manager_GetUserBalance Manager_GetUserTransactionHistory Manager_AddTransaction)

lemma test_db_no_user_2: "\<not> user_exists 2 test_db"
  by (simp add: user_exists_def test_db_eq)

theorem unknown_user_UserNotFound_witness:
  "\<not> user_exists 2 test_db \<and>
   GetUserBalance Manager () 2 test_db = ((NewFromFloat_0, Some (Storage ErrUserNotFound)), test_db) \<and>
   GetUserTransactionHistory Manager () 2 1 10 test_db =
     (([], Some (Storage ErrUserNotFound)), test_db) \<and>
   IsPositive (Amount other_transaction) \<and> UserID other_transaction = 2 \<and>
   AddTransaction Manager () other_transaction test_db =
     ((Transaction_zero, Some (Storage ErrUserNotFound)), test_db)"
  using unknown_user_UserNotFound [OF test_db_no_user_2, of 1 10 other_transaction]
    test_db_no_user_2
  by (simp add: other_transaction_def IsPositive_iff)

text \<open>
  C7. \<open>GetUserTransactionHistory\<close> looks the user up first, for every storage client.
  When that lookup fails (the user does not exist), the call fails with the lookup's
  error and no rows, never with an empty list and no error; the state is the one the
  lookup left, so the transaction repository was not consulted. When the lookup succeeds
  (the user exists) and the transaction repository has no rows for the user, the result
  is the empty list and no error.
\<close>

theorem GetUserTransactionHistory_checks_user_first:
  "(snd (fst (UserRepository_FindByID (storageClient tm) ctx userID s)) = Some e \<longrightarrow>
      GetUserTransactionHistory tm ctx userID page pageSize s =
        (([], Some (Storage e)), snd (UserRepository_FindByID (storageClient tm) ctx userID s))) \<and>
   (snd (fst (UserRepository_FindByID (storageClient tm) ctx userID s)) = None \<and>
    fst (TransactionRepository_GetUserTransactionHistory (storageClient tm) ctx userID page
           pageSize (snd (UserRepository_FindByID (storageClient tm) ctx userID s))) =
      ([], None) \<longrightarrow>
      fst (GetUserTransactionHistory tm ctx userID page pageSize s) = ([], None))"
  by (auto simp add: GetUserTransactionHistory_def split: prod.splits option.splits)

theorem GetUserTransactionHistory_checks_user_first_witness:
  "snd (fst (UserRepository_FindByID (storageClient (failing_manager ErrUserNotFound)) () 2 ())) =
     Some ErrUserNotFound \<and>
   GetUserTransactionHistory (failing_manager ErrUserNotFound) () 2 1 10 () =
     (([], Some (Storage ErrUserNotFound)), ()) \<and>
   snd (fst (UserRepository_FindByID (storageClient Manager) () 1 test_db)) = None \<and>
   fst (TransactionRepository_GetUserTransactionHistory (storageClient Manager) () 1 1 10
          (snd (UserRepository_FindByID (storageClient Manager) () 1 test_db))) = ([], None) \<and>
   fst (GetUserTransactionHistory Manager () 1 1 10 test_db) = ([], None)"
proof -
  have a: "snd (fst (UserRepository_FindByID (storageClient (failing_manager ErrUserNotFound))
      () 2 ())) = Some ErrUserNotFound"
    by (simp add: failing_manager_def failing_client_def NewTransactionManagerClient_def)
  have a': "snd (UserRepository_FindByID (storageClient (failing_manager ErrUserNotFound))
      () 2 ()) = ()"
    by simp
  have found: "UserRepository_FindByID (storageClient Manager) () 1 test_db =
      ((\<lparr>User_ID = 1, User_Balance = Store_Balance 1 test_db\<rparr>, None), test_db)"
    by (simp add: Manager_simps Store_FindByID_def user_exists_def test_db_eq)
  have b: "snd (fst (UserRepository_FindByID (storageClient Manager) () 1 test_db)) = None"
    by (simp add: found)
  have c: "fst (TransactionRepository_GetUserTransactionHistory (storageClient Manager) () 1 1 10
          (snd (UserRepository_FindByID (storageClient Manager) () 1 test_db))) = ([], None)"
    unfolding found
    by (simp add: Manager_simps Store_GetUserTransactionHistory_def user_transactions_def
        test_db_eq)
  show ?thesis
    using a a' b c
      GetUserTransactionHistory_checks_user_first
        [of "failing_manager ErrUserNotFound" "()" 2 "()" ErrUserNotFound 1 10]
      GetUserTransactionHistory_checks_user_first
        [of Manager "()" 1 test_db ErrUserNotFound 1 10]
    by simp
qed

section \<open>One row per transaction id\<close>

lemma Manager_AddTransaction_duplicate:
  "IsPositive (Amount t) \<Longrightarrow> user_exists (UserID t) db \<Longrightarrow> transaction_exists (ID t) db \<Longrightarrow>
   AddTransaction Manager () t db = ((Transaction_zero, Some ErrTransactionAlreadyExist), db)"
  by (simp add: Manager_AddTransaction)

lemma Manager_AddTransaction_fresh:
  "IsPositive (Amount t) \<Longrightarrow> user_exists (UserID t) db \<Longrightarrow> \<not> transaction_exists (ID t) db \<Longrightarrow>
   AddTransaction Manager () t db =
     ((t, None), db\<lparr>transactions := transactions db @ [to_storage t]\<rparr>)"
  by (simp add: Manager_AddTransaction)

lemma user_exists_after_insert [simp]:
  "user_exists userID (db\<lparr>transactions := rows\<rparr>) = user_exists userID db"
  by (simp add: user_exists_def)

lemma transaction_exists_after_insert:
  "transaction_exists k (db\<lparr>transactions := transactions db @ [row]\<rparr>) \<longleftrightarrow>
     transaction_exists k db \<or> stID row = k"
  by (auto simp add: transaction_exists_def)

lemma submit_all_duplicates:
  "transaction_exists k db \<Longrightarrow>
   \<forall>t\<in>set ts. ID t = k \<and> IsPositive (Amount t) \<and> user_exists (UserID t) db \<Longrightarrow>
   submit_all Manager () ts db = (replicate (length ts) (Some ErrTransactionAlreadyExist), db)"
proof (induction ts)
  case Nil
  show ?case by simp
next
  case (Cons t ts)
  then have "AddTransaction Manager () t db =
      ((Transaction_zero, Some ErrTransactionAlreadyExist), db)"
    by (simp add: Manager_AddTransaction_duplicate)
  with Cons show ?case by simp
qed

text \<open>
  Submissions with pairwise different ids, none of them stored, do not collide, whatever
  their idempotency keys are: each is inserted, in the order of the run.
\<close>

lemma submit_all_different_ids:
  "distinct (map ID ts) \<Longrightarrow>
   \<forall>t\<in>set ts. IsPositive (Amount t) \<and> user_exists (UserID t) db \<and>
      \<not> transaction_exists (ID t) db \<Longrightarrow>
   submit_all Manager () ts db =
     (replicate (length ts) None, db\<lparr>transactions := transactions db @ map to_storage ts\<rparr>)"
proof (induction ts arbitrary: db)
  case Nil
  show ?case by simp
next
  case (Cons t ts)
  let ?db' = "db\<lparr>transactions := transactions db @ [to_storage t]\<rparr>"
  from Cons.prems have first: "AddTransaction Manager () t db = ((t, None), ?db')"
    by (simp add: Manager_AddTransaction_fresh)
  have d: "distinct (map ID ts)"
    using Cons.prems by simp
  have "\<forall>u\<in>set ts. IsPositive (Amount u) \<and> user_exists (UserID u) ?db' \<and>
      \<not> transaction_exists (ID u) ?db'"
    using Cons.prems by (auto simp add: transaction_exists_after_insert)
  with d have rest: "submit_all Manager () ts ?db' =
      (replicate (length ts) None,
       ?db'\<lparr>transactions := transactions ?db' @ map to_storage ts\<rparr>)"
    by (rule Cons.IH)
  show ?case
    by (simp add: first rest)
qed

lemma distinct_after_AddTransaction:
  "distinct (map stID (transactions db)) \<Longrightarrow>
   distinct (map stID (transactions (snd (AddTransaction Manager () t db))))"
  by (simp add: Manager_AddTransaction transaction_exists_def)

lemma distinct_after_serve:
  "distinct (map stID (transactions db)) \<Longrightarrow> distinct (map stID (transactions (serve r db)))"
  by (cases r) (simp_all add: distinct_after_AddTransaction Store_Add_def)

lemma distinct_after_serve_all:
  "distinct (map stID (transactions db)) \<Longrightarrow>
   distinct (map stID (transactions (serve_all reqs db)))"
  by (induction reqs arbitrary: db) (simp_all add: distinct_after_serve)

text \<open>
  C2, as the code has it. The uniqueness constraint of the store is on the transaction's
  \<open>id\<close>. At most one persisted transaction exists per \<open>id\<close>: no run of requests and
  no call of \<open>AddTransaction\<close> leaves two rows with one \<open>id\<close>; a submission whose
  \<open>id\<close> is already stored is never persisted, and when it is valid and its user exists
  it is rejected as \<open>ErrTransactionAlreadyExist\<close>. The idempotency key takes no part:
  submissions with pairwise different \<open>id\<close>s, each with a positive amount, an existing
  user and an \<open>id\<close> that is not stored, are all persisted, each as a row of its own,
  whatever their idempotency keys are, also when they all carry the same one.
\<close>

theorem one_row_per_ID:
  "distinct (map stID (transactions db)) \<Longrightarrow>
   distinct (map stID (transactions (serve_all reqs db))) \<and>
   distinct (map stID (transactions (snd (AddTransaction Manager () t db)))) \<and>
   (transaction_exists (ID t) db \<longrightarrow>
      snd (AddTransaction Manager () t db) = db \<and>
      snd (fst (AddTransaction Manager () t db)) \<noteq> None) \<and>
   (transaction_exists (ID t) db \<and> IsPositive (Amount t) \<and> user_exists (UserID t) db \<longrightarrow>
      fst (AddTransaction Manager () t db) = (Transaction_zero, Some ErrTransactionAlreadyExist)) \<and>
   (distinct (map ID ts) \<and>
    (\<forall>u\<in>set ts. IsPositive (Amount u) \<and> user_exists (UserID u) db \<and>
       \<not> transaction_exists (ID u) db) \<longrightarrow>
      transactions (snd (submit_all Manager () ts db)) = transactions db @ map to_storage ts)"
proof (intro conjI)
  assume d: "distinct (map stID (transactions db))"
  show "distinct (map stID (transactions (serve_all reqs db)))"
    using d by (rule distinct_after_serve_all)
  show "distinct (map stID (transactions (snd (AddTransaction Manager () t db))))"
    using d by (rule distinct_after_AddTransaction)
  show "transaction_exists (ID t) db \<longrightarrow>
      snd (AddTransaction Manager () t db) = db \<and>
      snd (fst (AddTransaction Manager () t db)) \<noteq> None"
    by (simp add: Manager_AddTransaction)
  show "transaction_exists (ID t) db \<and> IsPositive (Amount t) \<and> user_exists (UserID t) db \<longrightarrow>
      fst (AddTransaction Manager () t db) = (Transaction_zero, Some ErrTransactionAlreadyExist)"
    by (simp add: Manager_AddTransaction)
  show "distinct (map ID ts) \<and>
    (\<forall>u\<in>set ts. IsPositive (Amount u) \<and> user_exists (UserID u) db \<and>
       \<not> transaction_exists (ID u) db) \<longrightarrow>
      transactions (snd (submit_all Manager () ts db)) = transactions db @ map to_storage ts"
    by (simp add: submit_all_different_ids)
qed

lemma after_test_transaction:
  "AddTransaction Manager () test_transaction test_db = ((test_transaction, None), test_db_1)"
  by (simp add: Manager_AddTransaction test_transaction_fields IsPositive_iff test_db_eq
      test_db_1_def user_exists_def transaction_exists_def)

lemma same_key_premises:
  "distinct (map ID [test_transaction, same_key_transaction]) \<and>
   (\<forall>u\<in>set [test_transaction, same_key_transaction].
      IsPositive (Amount u) \<and> user_exists (UserID u) test_db \<and>
      \<not> transaction_exists (ID u) test_db)"
  by (simp add: test_transaction_fields same_key_transaction_fields IsPositive_iff
      user_exists_def transaction_exists_def test_db_eq)

lemma after_same_key_transaction:
  "submit_all Manager () [test_transaction, same_key_transaction] test_db =
     ([None, None],
      \<lparr>users = [1],
       transactions = [to_storage test_transaction, to_storage same_key_transaction]\<rparr>)"
  using same_key_premises
    submit_all_different_ids [of "[test_transaction, same_key_transaction]" test_db]
  by (simp add: test_db_eq)

theorem one_row_per_ID_witness:
  "distinct (map stID (transactions test_db_1)) \<and>
   transaction_exists (ID test_transaction) test_db_1 \<and>
   IsPositive (Amount test_transaction) \<and>
   user_exists (UserID test_transaction) test_db_1 \<and>
   AddTransaction Manager () test_transaction test_db_1 =
     ((Transaction_zero, Some ErrTransactionAlreadyExist), test_db_1) \<and>
   distinct (map stID (transactions (serve_all [Submit test_transaction] test_db_1))) \<and>
   distinct (map stID (transactions test_db)) \<and>
   distinct (map ID [test_transaction, same_key_transaction]) \<and>
   IdempotencyKey same_key_transaction = IdempotencyKey test_transaction \<and>
   transactions (snd (submit_all Manager () [test_transaction, same_key_transaction] test_db)) =
     [to_storage test_transaction, to_storage same_key_transaction]"
proof -
  have d: "distinct (map stID (transactions test_db_1))"
    by (simp add: test_db_1_def)
  have e: "transaction_exists (ID test_transaction) test_db_1"
    by (simp add: test_db_1_def transaction_exists_def)
  have u: "user_exists (UserID test_transaction) test_db_1"
    by (simp add: test_db_1_def user_exists_def test_transaction_fields)
  have d0: "distinct (map stID (transactions test_db))"
    by (simp add: test_db_eq)
  have k: "IdempotencyKey same_key_transaction = IdempotencyKey test_transaction"
    by (simp add: test_transaction_fields same_key_transaction_fields)
  have one: "AddTransaction Manager () test_transaction test_db_1 =
     ((Transaction_zero, Some ErrTransactionAlreadyExist), test_db_1) \<and>
     distinct (map stID (transactions (serve_all [Submit test_transaction] test_db_1)))"
    using d e u test_transaction_valid
      one_row_per_ID [OF d, of "[Submit test_transaction]" test_transaction "[]"]
    by (simp add: prod_eq_iff)
  have two: "transactions (snd (submit_all Manager ()
      [test_transaction, same_key_transaction] test_db)) =
     [to_storage test_transaction, to_storage same_key_transaction]"
    using same_key_premises
      one_row_per_ID [OF d0, of "[]" test_transaction "[test_transaction, same_key_transaction]"]
    by (simp add: test_db_eq)
  show ?thesis
    using d e u d0 k one two same_key_premises test_transaction_valid by simp
qed

text \<open>
  C2, as the spec states it, fails: two valid submissions with one idempotency key and
  two ids (the requests of \<^verbatim>\<open>TestAddTransaction_MultipleRequestWithDifferentAmount\<close>,
  which expects every one of them to succeed) are both persisted.
\<close>

theorem same_idempotency_key_two_rows:
  "IsPositive (Amount test_transaction) \<and> IsPositive (Amount same_key_transaction) \<and>
   IdempotencyKey same_key_transaction = IdempotencyKey test_transaction \<and>
   map stIdempotencyKey
     (transactions (snd (submit_all Manager () [test_transaction, same_key_transaction] test_db))) =
   [20, 20]"
  unfolding after_same_key_transaction
  by (simp add: same_key_transaction_fields test_transaction_fields IsPositive_iff)

text \<open>
  C1, as the spec states it, fails for submissions that share the idempotency key only:
  both of two such submissions succeed, none is answered \<open>ErrTransactionAlreadyExist\<close>.
\<close>

theorem same_idempotency_key_two_winners:
  "IdempotencyKey same_key_transaction = IdempotencyKey test_transaction \<and>
   fst (submit_all Manager () [test_transaction, same_key_transaction] test_db) = [None, None]"
  unfolding after_same_key_transaction
  by (simp add: same_key_transaction_fields test_transaction_fields)

text \<open>
  C1, as the code has it. Take \<open>N \<ge> 2\<close> submissions that share one transaction \<open>id\<close>,
  each valid and for an existing user, on a store that has no row with that \<open>id\<close>. In
  whatever order the store takes them (the theorem holds for every list, hence for every
  permutation of one), exactly one succeeds, the first, and the other \<open>N - 1\<close> are
  answered \<open>ErrTransactionAlreadyExist\<close>; the store gains the winner's row and no other,
  and holds exactly one row with that \<open>id\<close>. Submissions that share the idempotency key
  only do not collide: when their \<open>id\<close>s are pairwise different and not stored, and each
  is valid and for an existing user, all of them succeed, whatever their idempotency
  keys are.
\<close>

theorem exactly_one_winner:
  assumes n: "2 \<le> length ts"
    and same: "\<forall>t\<in>set ts. ID t = k \<and> IsPositive (Amount t) \<and> user_exists (UserID t) db"
    and fresh: "\<not> transaction_exists k db"
  shows "fst (submit_all Manager () ts db) =
           None # replicate (length ts - 1) (Some ErrTransactionAlreadyExist) \<and>
         length (filter (\<lambda>e. e = None) (fst (submit_all Manager () ts db))) = 1 \<and>
         length (filter (\<lambda>e. e = Some ErrTransactionAlreadyExist)
                   (fst (submit_all Manager () ts db))) = length ts - 1 \<and>
         transactions (snd (submit_all Manager () ts db)) =
           transactions db @ [to_storage (hd ts)] \<and>
         length (filter (\<lambda>r. stID r = k) (transactions (snd (submit_all Manager () ts db)))) = 1 \<and>
         (distinct (map ID us) \<and>
          (\<forall>u\<in>set us. IsPositive (Amount u) \<and> user_exists (UserID u) db' \<and>
             \<not> transaction_exists (ID u) db') \<longrightarrow>
            fst (submit_all Manager () us db') = replicate (length us) None)"
proof -
  from n obtain t rest where ts: "ts = t # rest"
    by (cases ts) auto
  let ?db' = "db\<lparr>transactions := transactions db @ [to_storage t]\<rparr>"
  from same ts have t: "ID t = k" "IsPositive (Amount t)" "user_exists (UserID t) db"
    by auto
  with fresh have first: "AddTransaction Manager () t db = ((t, None), ?db')"
    by (simp add: Manager_AddTransaction_fresh)
  have now: "transaction_exists k ?db'"
    using t by (simp add: transaction_exists_after_insert)
  have "\<forall>t\<in>set rest. ID t = k \<and> IsPositive (Amount t) \<and> user_exists (UserID t) ?db'"
    using same ts by simp
  with now have others: "submit_all Manager () rest ?db' =
      (replicate (length rest) (Some ErrTransactionAlreadyExist), ?db')"
    by (rule submit_all_duplicates)
  have run: "submit_all Manager () ts db =
      (None # replicate (length rest) (Some ErrTransactionAlreadyExist), ?db')"
    by (simp add: ts first others)
  have none: "filter (\<lambda>r. stID r = k) (transactions db) = []"
    using fresh by (auto simp add: transaction_exists_def filter_empty_conv)
  have same_id: "fst (submit_all Manager () ts db) =
           None # replicate (length ts - 1) (Some ErrTransactionAlreadyExist) \<and>
         length (filter (\<lambda>e. e = None) (fst (submit_all Manager () ts db))) = 1 \<and>
         length (filter (\<lambda>e. e = Some ErrTransactionAlreadyExist)
                   (fst (submit_all Manager () ts db))) = length ts - 1 \<and>
         transactions (snd (submit_all Manager () ts db)) =
           transactions db @ [to_storage (hd ts)] \<and>
         length (filter (\<lambda>r. stID r = k) (transactions (snd (submit_all Manager () ts db)))) = 1"
    unfolding run using t none by (simp add: ts)
  have other_ids: "distinct (map ID us) \<and>
          (\<forall>u\<in>set us. IsPositive (Amount u) \<and> user_exists (UserID u) db' \<and>
             \<not> transaction_exists (ID u) db') \<longrightarrow>
            fst (submit_all Manager () us db') = replicate (length us) None"
    by (simp add: submit_all_different_ids)
  from same_id other_ids show ?thesis
    by (intro conjI) (erule conjE | assumption)+
qed

lemma test_db_fresh: "\<not> transaction_exists 10 test_db"
  by (simp add: transaction_exists_def test_db_eq)

theorem exactly_one_winner_witness:
  "fst (submit_all Manager () [test_transaction, test_transaction, test_transaction] test_db) =
     [None, Some ErrTransactionAlreadyExist, Some ErrTransactionAlreadyExist] \<and>
   transactions (snd (submit_all Manager () [test_transaction, test_transaction, test_transaction]
     test_db)) = [to_storage test_transaction] \<and>
   distinct (map ID [test_transaction, same_key_transaction]) \<and>
   IdempotencyKey same_key_transaction = IdempotencyKey test_transaction \<and>
   fst (submit_all Manager () [test_transaction, same_key_transaction] test_db) = [None, None]"
proof -
  have n: "2 \<le> length [test_transaction, test_transaction, test_transaction]"
    by simp
  have same: "\<forall>t\<in>set [test_transaction, test_transaction, test_transaction].
      ID t = 10 \<and> IsPositive (Amount t) \<and> user_exists (UserID t) test_db"
    by (simp add: IsPositive_iff test_transaction_fields user_exists_def test_db_eq)
  have k: "IdempotencyKey same_key_transaction = IdempotencyKey test_transaction"
    by (simp add: test_transaction_fields same_key_transaction_fields)
  show ?thesis
    using k same_key_premises
      exactly_one_winner [OF n same test_db_fresh,
        of "[test_transaction, same_key_transaction]" test_db]
    by (simp add: test_db_eq)
qed

section \<open>The balance\<close>








end
